theory Spec2Isabelle
  imports Complex_Main "HOL-Library.Char_ord" "HOL-Library.List_Lexorder"
begin

section \<open>The JavaScript runtime functions the application calls\<close>

text \<open>
  The application is TypeScript running on the JavaScript runtime. The parts of the
  runtime library that the modelled functions call are written out here: numbers with
  \<open>NaN\<close>, truthiness, \<open>parseInt\<close>, \<open>Array.prototype.slice\<close>, and the \<open>Date\<close>
  functions on calendar days.

  Numbers are IEEE doubles in the runtime. \<open>Num v\<close> stands for the double whose value
  is the integer \<open>v\<close>, and the arithmetic on \<open>Num\<close> is exact integer arithmetic. That is
  the runtime's arithmetic as long as the operands and the result are safe integers,
  of magnitude at most \<open>2^53 - 1\<close> (\<open>Number.MAX_SAFE_INTEGER\<close>); beyond it the runtime
  rounds to the nearest double, and to \<open>Infinity\<close> in the end, which the model does not
  follow. A statement that computes with \<open>Num\<close> values that are not fixed therefore
  carries the bound \<open>safeInteger\<close> on them. Hours, which the source obtains by dividing
  seconds by 3600, are exact rationals.
  Strings are lists of 8-bit characters; the comparison of two strings is the
  lexicographic order on character codes, as JavaScript's \<open><=\<close> on strings is on code
  units.
\<close>

datatype number = NaN | Num int





text \<open>Truthiness of a number: \<open>NaN\<close> and \<open>0\<close> are falsy.\<close>

fun truthy :: "number \<Rightarrow> bool" where
  "truthy NaN = False"
| "truthy (Num n) = (n \<noteq> 0)"

subsection \<open>parseInt\<close>


definition digitValue :: "char \<Rightarrow> int option" where
  "digitValue c =
     (let n = (of_char c :: int) in
      if 48 \<le> n \<and> n \<le> 57 then Some (n - 48)
      else if 97 \<le> n \<and> n \<le> 122 then Some (n - 87)
      else if 65 \<le> n \<and> n \<le> 90 then Some (n - 55)
      else None)"

definition isRadixDigit :: "int \<Rightarrow> char \<Rightarrow> bool" where
  "isRadixDigit R c = (case digitValue c of None \<Rightarrow> False | Some v \<Rightarrow> v < R)"

text \<open>The value of a string of radix-\<open>R\<close> digits, most significant first.\<close>

definition digitsValue :: "int \<Rightarrow> string \<Rightarrow> int" where
  "digitsValue R ds = foldl (\<lambda>acc c. acc * R + the (digitValue c)) 0 ds"


subsection \<open>Array.prototype.slice\<close>

text \<open>
  \<open>xs.slice(start, end)\<close>: a negative index counts from the end, both indices are
  clamped to \<open>[0, length]\<close>, and the result is empty when the range is.
\<close>

definition relativeIndex :: "int \<Rightarrow> int \<Rightarrow> nat" where
  "relativeIndex len i = nat (if i < 0 then max (len + i) 0 else min i len)"

definition slice :: "'a list \<Rightarrow> int \<Rightarrow> int \<Rightarrow> 'a list" where
  "slice xs start end' =
     (let len = int (length xs);
          k = relativeIndex len start;
          final = relativeIndex len end'
      in take (final - k) (drop k xs))"

text \<open>\<open>xs.slice(-n)\<close>: the last \<open>n\<close> elements (all of them when there are fewer).\<close>

definition sliceFrom :: "'a list \<Rightarrow> int \<Rightarrow> 'a list" where
  "sliceFrom xs start = drop (relativeIndex (int (length xs)) start) xs"

subsection \<open>Decimal numerals\<close>

text \<open>The decimal numeral of a non-negative integer, and \<open>toString()\<close> of an integer.\<close>

definition digitChar :: "int \<Rightarrow> char" where
  "digitChar d = ''0123456789'' ! nat d"

function showNat :: "int \<Rightarrow> string" where
  "showNat n = (if n < 10 then [digitChar n]
                else showNat (n div 10) @ [digitChar (n mod 10)])"
  by pat_completeness auto
termination
  by (relation "measure nat") auto

declare showNat.simps [simp del]

definition showInt :: "int \<Rightarrow> string" where
  "showInt i = (if i < 0 then CHR ''-'' # showNat (- i) else showNat i)"

text \<open>\<open>padStart(w, '0')\<close> on a numeral.\<close>

definition padStart :: "nat \<Rightarrow> string \<Rightarrow> string" where
  "padStart w s = replicate (w - length s) CHR ''0'' @ s"

subsection \<open>Calendar days\<close>

text \<open>
  A time value is a number of milliseconds since 1970-01-01T00:00:00Z. The source keeps
  \<open>startTime\<close> and \<open>endTime\<close> as the \<open>toISOString\<close> form of a time value and reads them
  back with \<open>new Date(s).getTime()\<close>; the form has millisecond precision, so writing and
  reading back is the identity, and the model keeps the time value itself.

  A calendar day is a number of days since 1970-01-01 in the proleptic Gregorian
  calendar. \<open>daysFromCivil\<close> is the runtime's \<open>MakeDay\<close>, \<open>civilFromDays\<close> its inverse
  (\<open>YearFromTime\<close>, \<open>MonthFromTime\<close>, \<open>DateFromTime\<close>).
\<close>

definition msPerDay :: int where
  "msPerDay = 86400000"

definition daysFromCivil :: "int \<Rightarrow> int \<Rightarrow> int \<Rightarrow> int" where
  "daysFromCivil y m d =
     (let y1 = (if m \<le> 2 then y - 1 else y);
          era = y1 div 400;
          yoe = y1 - era * 400;
          mp = (if m > 2 then m - 3 else m + 9);
          doy = (153 * mp + 2) div 5 + d - 1;
          doe = yoe * 365 + yoe div 4 - yoe div 100 + doy
      in era * 146097 + doe - 719468)"

definition civilFromDays :: "int \<Rightarrow> int \<times> int \<times> int" where
  "civilFromDays z =
     (let z1 = z + 719468;
          era = z1 div 146097;
          doe = z1 - era * 146097;
          yoe = (doe - doe div 1460 + doe div 36524 - doe div 146096) div 365;
          doy = doe - (365 * yoe + yoe div 4 - yoe div 100);
          mp = (5 * doy + 2) div 153;
          d = doy - (153 * mp + 2) div 5 + 1;
          m = (if mp < 10 then mp + 3 else mp - 9);
          y = yoe + era * 400 + (if m \<le> 2 then 1 else 0)
      in (y, m, d))"

text \<open>The day of the week of a calendar day, Sunday = 0; 1970-01-01 was a Thursday.\<close>

definition weekDay :: "int \<Rightarrow> int" where
  "weekDay z = (z + 4) mod 7"

text \<open>
  The date part of \<open>toISOString()\<close>, that is \<open>toISOString().split('T')[0]\<close>: four digits
  for the years 0 to 9999, a sign and six digits otherwise.
\<close>

definition isoYear :: "int \<Rightarrow> string" where
  "isoYear y =
     (if 0 \<le> y \<and> y \<le> 9999 then padStart 4 (showNat y)
      else (if y < 0 then CHR ''-'' else CHR ''+'') # padStart 6 (showNat \<bar>y\<bar>))"

definition isoDateOfDay :: "int \<Rightarrow> string" where
  "isoDateOfDay z =
     (case civilFromDays z of (y, m, d) \<Rightarrow>
        isoYear y @ ''-'' @ padStart 2 (showNat m) @ ''-'' @ padStart 2 (showNat d))"

definition isoDate :: "int \<Rightarrow> string" where
  "isoDate t = isoDateOfDay (t div msPerDay)"

text \<open>
  \<open>new Date(s)\<close> on a date-only string \<open>YYYY\<close>, \<open>YYYY-MM\<close> or \<open>YYYY-MM-DD\<close> (the year
  also as a sign and six digits): midnight UTC of that day, given here as the calendar
  day. The month must be 1 to 12 and the day 1 to 31; a day past the end of the month
  runs over into the next month, as \<open>MakeDay\<close> does. \<open>None\<close> is the Invalid Date. Strings
  with a time part, and the other forms that a runtime may accept by its own
  heuristics, are not modelled and also give \<open>None\<close>; the application writes only the
  \<open>YYYY-MM-DD\<close> form into an entry's \<open>date\<close>.
\<close>

definition isDigit :: "char \<Rightarrow> bool" where
  "isDigit c = isRadixDigit 10 c"

definition decimalField :: "string \<Rightarrow> int option" where
  "decimalField ds = (if ds \<noteq> [] \<and> list_all isDigit ds then Some (digitsValue 10 ds) else None)"

definition parseYear :: "string \<Rightarrow> (int \<times> string) option" where
  "parseYear s =
     (if s \<noteq> [] \<and> (hd s = CHR ''+'' \<or> hd s = CHR ''-'') then
        (case decimalField (take 6 (tl s)) of
           None \<Rightarrow> None
         | Some y \<Rightarrow>
             if length (take 6 (tl s)) < 6 \<or> (hd s = CHR ''-'' \<and> y = 0) then None
             else Some (if hd s = CHR ''-'' then - y else y, drop 6 (tl s)))
      else
        (case decimalField (take 4 s) of
           None \<Rightarrow> None
         | Some y \<Rightarrow> if length (take 4 s) < 4 then None else Some (y, drop 4 s)))"

text \<open>One \<open>-NN\<close> field; an absent field (the string ends) counts as \<open>01\<close>.\<close>

definition parseField :: "string \<Rightarrow> (int \<times> string) option" where
  "parseField s =
     (if s = [] then Some (1, [])
      else if hd s = CHR ''-'' \<and> length (take 2 (tl s)) = 2 then
        (case decimalField (take 2 (tl s)) of
           None \<Rightarrow> None
         | Some v \<Rightarrow> Some (v, drop 2 (tl s)))
      else None)"

definition parseDate :: "string \<Rightarrow> int option" where
  "parseDate s =
     (case parseYear s of
        None \<Rightarrow> None
      | Some (y, r1) \<Rightarrow>
          (case parseField r1 of
             None \<Rightarrow> None
           | Some (m, r2) \<Rightarrow>
               (case parseField r2 of
                  None \<Rightarrow> None
                | Some (d, r3) \<Rightarrow>
                    if r3 = [] \<and> 1 \<le> m \<and> m \<le> 12 \<and> 1 \<le> d \<and> d \<le> 31
                       \<and> \<bar>daysFromCivil y m 1 + d - 1\<bar> \<le> 100000000
                    then Some (daysFromCivil y m 1 + d - 1) else None)))"


subsection \<open>Array.prototype.sort\<close>

text \<open>
  \<open>xs.sort(cmp)\<close> is a stable sort; a comparator result \<open>NaN\<close> counts as \<open>+0\<close>. For a
  comparator that is a consistent ordering every stable sort gives the same list, and
  the model is insertion sort. (Where the comparator is not consistent, as with Invalid
  Dates among valid ones, the runtime leaves the order to the implementation; the
  result is a permutation of the input in any case.)
\<close>

definition sortCompare :: "('a \<Rightarrow> 'a \<Rightarrow> number) \<Rightarrow> 'a \<Rightarrow> 'a \<Rightarrow> int" where
  "sortCompare cmp x y = (case cmp x y of NaN \<Rightarrow> 0 | Num v \<Rightarrow> v)"

fun insertBy :: "('a \<Rightarrow> 'a \<Rightarrow> number) \<Rightarrow> 'a \<Rightarrow> 'a list \<Rightarrow> 'a list" where
  "insertBy cmp x [] = [x]"
| "insertBy cmp x (y # ys) =
     (if sortCompare cmp x y \<le> 0 then x # y # ys else y # insertBy cmp x ys)"

definition sortBy :: "('a \<Rightarrow> 'a \<Rightarrow> number) \<Rightarrow> 'a list \<Rightarrow> 'a list" where
  "sortBy cmp xs = foldr (insertBy cmp) xs []"

text \<open>\<open>getTime()\<close> of one Date minus \<open>getTime()\<close> of another, each possibly invalid.\<close>

definition timeDifference :: "int option \<Rightarrow> int option \<Rightarrow> number" where
  "timeDifference a b =
     (case (a, b) of (Some x, Some y) \<Rightarrow> Num ((x - y) * msPerDay) | _ \<Rightarrow> NaN)"

section \<open>Data model\<close>

text \<open>
  The interfaces \<open>Project\<close> and \<open>TimeEntry\<close> of \<open>src/app/page.tsx\<close>. The fields \<open>id\<close>
  and \<open>name\<close> carry a prefix, since a record field is a constant of the theory.
  \<open>duration\<close> is only ever written by \<open>startTimer\<close> (0) and \<open>stopTimer\<close> (a floor of a
  quotient), so it is an integer; \<open>editedDuration\<close> is optional and may hold \<open>NaN\<close>.
\<close>

record Project =
  p_id :: string
  p_name :: string
  color :: string
  createdAt :: int

record TimeEntry =
  e_id :: string
  projectId :: string
  projectName :: string
  startTime :: int
  endTime :: "int option"
  duration :: int
  date :: string
  isRunning :: bool
  editedDuration :: "number option"

text \<open>The three pieces of component state of \<open>Home\<close>.\<close>

record state =
  projects :: "Project list"
  timeEntries :: "TimeEntry list"
  currentEntry :: "TimeEntry option"

section \<open>Project registry (\<open>src/app/page.tsx\<close>)\<close>

definition addProject :: "int \<Rightarrow> int \<Rightarrow> string \<Rightarrow> string \<Rightarrow> state \<Rightarrow> state" where
  \<comment> \<open>\<open>now1\<close> is what \<open>Date.now()\<close> returns, \<open>now2\<close> the time of \<open>new Date()\<close>\<close>
  "addProject now1 now2 name col s =
     s\<lparr>projects := projects s @
         [\<lparr>p_id = showInt now1, p_name = name, color = col, createdAt = now2\<rparr>]\<rparr>"

definition updateProject :: "string \<Rightarrow> string \<Rightarrow> string \<Rightarrow> state \<Rightarrow> state" where
  "updateProject i name col s =
     s\<lparr>projects := map (\<lambda>p. if p_id p = i then p\<lparr>p_name := name, color := col\<rparr> else p) (projects s),
       timeEntries := map (\<lambda>entry. if projectId entry = i then entry\<lparr>projectName := name\<rparr> else entry)
                          (timeEntries s)\<rparr>"

definition deleteProject :: "string \<Rightarrow> state \<Rightarrow> state" where
  "deleteProject i s = s\<lparr>projects := filter (\<lambda>p. p_id p \<noteq> i) (projects s)\<rparr>"

section \<open>Session controller (\<open>src/app/page.tsx\<close> and the \<open>Timer\<close> component)\<close>

text \<open>
  \<open>startTimer\<close> reads the clock three times: \<open>Date.now()\<close> for the id, \<open>new Date()\<close> for
  \<open>startTime\<close> and \<open>new Date()\<close> for \<open>date\<close>. The three readings are arguments.
\<close>

definition startTimer :: "int \<Rightarrow> int \<Rightarrow> int \<Rightarrow> string \<Rightarrow> state \<Rightarrow> state" where
  "startTimer now1 now2 now3 pid s =
     (case find (\<lambda>p. p_id p = pid) (projects s) of
        None \<Rightarrow> s
      | Some project \<Rightarrow>
          s\<lparr>currentEntry := Some
              \<lparr>e_id = showInt now1,
               projectId = pid,
               projectName = p_name project,
               startTime = now2,
               endTime = None,
               duration = 0,
               date = isoDate now3,
               isRunning = True,
               editedDuration = None\<rparr>\<rparr>)"

definition stopTimer :: "int \<Rightarrow> state \<Rightarrow> state" where
  "stopTimer now s =
     (case currentEntry s of
        None \<Rightarrow> s
      | Some ce \<Rightarrow>
          s\<lparr>currentEntry := Some
              (ce\<lparr>endTime := Some now,
                  duration := \<lfloor>rat_of_int (now - startTime ce) / 1000\<rfloor>,
                  isRunning := False\<rparr>)\<rparr>)"

definition saveEntry :: "TimeEntry \<Rightarrow> state \<Rightarrow> state" where
  "saveEntry entry s = s\<lparr>timeEntries := timeEntries s @ [entry], currentEntry := None\<rparr>"


definition deleteTimeEntry :: "string \<Rightarrow> state \<Rightarrow> state" where
  "deleteTimeEntry i s = s\<lparr>timeEntries := filter (\<lambda>entry. e_id entry \<noteq> i) (timeEntries s)\<rparr>"

text \<open>
  The handlers of the \<open>Timer\<close> component guard the calls. \<open>currentEntry?.isRunning\<close> is
  falsy when there is no current entry; a string is truthy when it is not empty.
\<close>

definition running :: "state \<Rightarrow> bool" where
  "running s = (case currentEntry s of None \<Rightarrow> False | Some ce \<Rightarrow> isRunning ce)"

definition handleStart :: "int \<Rightarrow> int \<Rightarrow> int \<Rightarrow> string \<Rightarrow> state \<Rightarrow> state" where
  "handleStart now1 now2 now3 selectedProject s =
     (if selectedProject \<noteq> [] \<and> \<not> running s then startTimer now1 now2 now3 selectedProject s else s)"

definition handleStop :: "int \<Rightarrow> state \<Rightarrow> state" where
  "handleStop now s = (if running s then stopTimer now s else s)"

definition handleSave :: "state \<Rightarrow> state" where
  "handleSave s =
     (case currentEntry s of
        None \<Rightarrow> s
      | Some ce \<Rightarrow> if \<not> isRunning ce then saveEntry ce s else s)"

text \<open>The session states of the controller, read off the current entry.\<close>

datatype session = Idle | Running | Stopped

definition sessionState :: "state \<Rightarrow> session" where
  "sessionState s =
     (case currentEntry s of
        None \<Rightarrow> Idle
      | Some ce \<Rightarrow> if isRunning ce then Running else Stopped)"

section \<open>Duration edit (\<open>Timer\<close> and \<open>TimeEntryHistory\<close>)\<close>




section \<open>Entry history (\<open>TimeEntryHistory\<close>)\<close>

text \<open>
  The expression \<open>entry.editedDuration || entry.duration\<close>, which every total and
  every chart series reads: the left operand when it is truthy, the right one otherwise.
\<close>

definition effectiveDuration :: "TimeEntry \<Rightarrow> int" where
  "effectiveDuration entry =
     (case editedDuration entry of
        None \<Rightarrow> duration entry
      | Some NaN \<Rightarrow> duration entry
      | Some (Num n) \<Rightarrow> if truthy (Num n) then n else duration entry)"

definition filteredEntries :: "TimeEntry list \<Rightarrow> string \<Rightarrow> string \<Rightarrow> string \<Rightarrow> TimeEntry list" where
  "filteredEntries entries filterProject filterDateFrom filterDateTo =
     (let filtered = entries;
          filtered = (if filterProject \<noteq> ''all''
                      then filter (\<lambda>entry. projectId entry = filterProject) filtered else filtered);
          filtered = (if filterDateFrom \<noteq> []
                      then filter (\<lambda>entry. date entry \<ge> filterDateFrom) filtered else filtered);
          filtered = (if filterDateTo \<noteq> []
                      then filter (\<lambda>entry. date entry \<le> filterDateTo) filtered else filtered)
      in sortBy (\<lambda>a b. timeDifference (parseDate (date b)) (parseDate (date a))) filtered)"

definition totalHours :: "TimeEntry list \<Rightarrow> rat" where
  "totalHours filtered =
     of_int (foldl (\<lambda>total entry. total + effectiveDuration entry) 0 filtered) / 3600"

definition itemsPerPage :: int where
  "itemsPerPage = 10"

definition paginatedEntries :: "'a list \<Rightarrow> int \<Rightarrow> 'a list" where
  "paginatedEntries filtered currentPage =
     (let start = (currentPage - 1) * itemsPerPage;
          end' = start + itemsPerPage
      in slice filtered start end')"

definition totalPages :: "'a list \<Rightarrow> int" where
  "totalPages filtered = \<lceil>rat_of_nat (length filtered) / rat_of_int itemsPerPage\<rceil>"

section \<open>Charts (\<open>PerformanceCharts\<close>)\<close>

definition chartTotalHours :: "TimeEntry list \<Rightarrow> rat" where
  \<comment> \<open>\<open>totalHours\<close> of \<open>PerformanceCharts\<close>\<close>
  "chartTotalHours entries =
     of_int (foldl (\<lambda>total entry. total + effectiveDuration entry) 0 entries) / 3600"

text \<open>
  \<open>getDate\<close>, \<open>getDay\<close>, \<open>setDate\<close> and \<open>toLocaleDateString\<close> work in the local time
  zone. The zone is the argument \<open>tz\<close>, its offset from UTC in minutes (positive to the
  east), taken as constant over the year. \<open>tzDays\<close> is the local calendar day of
  midnight UTC relative to the UTC day: 0 east of Greenwich, -1 west of it.
\<close>

definition tzDays :: "int \<Rightarrow> int" where
  "tzDays tz = (tz * 60000) div msPerDay"

text \<open>
  The key of the week of an entry's date: \<open>date = new Date(entry.date)\<close>,
  \<open>startOfWeek.setDate(date.getDate() - date.getDay())\<close>, then
  \<open>startOfWeek.toISOString().split('T')[0]\<close>. On an Invalid Date \<open>toISOString\<close> throws
  a RangeError, which is \<open>None\<close>.
\<close>

definition weekKey :: "int \<Rightarrow> string \<Rightarrow> string option" where
  "weekKey tz dateString =
     (case parseDate dateString of
        None \<Rightarrow> None
      | Some z \<Rightarrow> Some (isoDateOfDay (z - weekDay (z + tzDays tz))))"

text \<open>
  An object used as a dictionary lists its (non-numeric) string keys in the order of
  their first assignment: an association list, \<open>assign\<close> being \<open>obj[k] = v\<close>.
\<close>

fun assign :: "(string \<times> 'v) list \<Rightarrow> string \<Rightarrow> 'v \<Rightarrow> (string \<times> 'v) list" where
  "assign [] k v = [(k, v)]"
| "assign ((k', v') # m) k v = (if k' = k then (k, v) # m else (k', v') # assign m k v)"

fun weeklyMap :: "int \<Rightarrow> TimeEntry list \<Rightarrow> (string \<times> rat) list \<Rightarrow> (string \<times> rat) list option" where
  "weeklyMap tz [] m = Some m"
| "weeklyMap tz (entry # entries) m =
     (case weekKey tz (date entry) of
        None \<Rightarrow> None
      | Some k \<Rightarrow>
          weeklyMap tz entries
            (assign m k ((case map_of m k of None \<Rightarrow> 0 | Some h \<Rightarrow> h)
                          + of_int (effectiveDuration entry) / 3600)))"

text \<open>
  \<open>new Date(week).toLocaleDateString('en-US', {month: 'short', day: 'numeric'})\<close>: the
  month's short name and the day of the month, in local time, without the year.
\<close>

definition monthShort :: "int \<Rightarrow> string" where
  "monthShort m =
     [''Jan'', ''Feb'', ''Mar'', ''Apr'', ''May'', ''Jun'',
      ''Jul'', ''Aug'', ''Sep'', ''Oct'', ''Nov'', ''Dec''] ! nat (m - 1)"

definition weekLabel :: "int \<Rightarrow> string \<Rightarrow> string" where
  "weekLabel tz wk =
     (case parseDate wk of
        None \<Rightarrow> ''Invalid Date''
      | Some z \<Rightarrow>
          (case civilFromDays (z + tzDays tz) of (y, m, d) \<Rightarrow>
             monthShort m @ '' '' @ showNat d))"

text \<open>
  \<open>new Date(label)\<close> on such a label. The string is not in the ISO format, so the
  runtime's own parser reads it; the model is the parser of V8 (Node.js, Chrome), which
  takes the month and the day from the string and, there being no year, the year 2001;
  the result is local midnight of that day, given as the local calendar day. Other
  strings give the Invalid Date.
\<close>

definition monthIndex :: "string \<Rightarrow> int option" where
  "monthIndex w =
     map_option (\<lambda>m. int m + 1)
       (find (\<lambda>m. monthShort (int m + 1) = w) [0 ..< 12])"

definition parseLabel :: "string \<Rightarrow> int option" where
  "parseLabel w =
     (case (monthIndex (take 3 w), decimalField (drop 4 w)) of
        (Some m, Some d) \<Rightarrow>
          if take 1 (drop 3 w) = '' '' \<and> length (drop 4 w) \<le> 2 \<and> 1 \<le> d \<and> d \<le> 31
          then Some (daysFromCivil 2001 m 1 + d - 1) else None
      | _ \<Rightarrow> None)"

record WeekBucket =
  week :: string
  hours :: rat

definition weeklyData :: "int \<Rightarrow> TimeEntry list \<Rightarrow> WeekBucket list option" where
  "weeklyData tz entries =
     (case weeklyMap tz entries [] of
        None \<Rightarrow> None
      | Some m \<Rightarrow>
          Some (sliceFrom
                  (sortBy (\<lambda>a b. timeDifference (parseLabel (week a)) (parseLabel (week b)))
                     (map (\<lambda>(wk, h). \<lparr>week = weekLabel tz wk, hours = h\<rparr>) m))
                  (- 8)))"

section \<open>The specification's statements, for comparison\<close>

text \<open>
  The definitions of this section follow the words of the specification, not the
  source; the theorems compare them with the definitions above.

  The specification's effective duration: \<open>editedDuration\<close> if present, else
  \<open>duration\<close>.
\<close>

definition specEffectiveDuration :: "TimeEntry \<Rightarrow> number" where
  "specEffectiveDuration entry =
     (case editedDuration entry of None \<Rightarrow> Num (duration entry) | Some n \<Rightarrow> n)"



text \<open>
  The specification's per-week series: the same buckets, in chronological order of the
  week's first day, the most recent 8 of them.
\<close>

definition specWeeklyData :: "int \<Rightarrow> TimeEntry list \<Rightarrow> WeekBucket list option" where
  "specWeeklyData tz entries =
     (case weeklyMap tz entries [] of
        None \<Rightarrow> None
      | Some m \<Rightarrow>
          Some (sliceFrom
                  (map (\<lambda>(wk, h). \<lparr>week = weekLabel tz wk, hours = h\<rparr>)
                     (sortBy (\<lambda>a b. timeDifference (parseDate (fst a)) (parseDate (fst b))) m))
                  (- 8)))"

section \<open>Example states\<close>

definition exProject :: "string \<Rightarrow> string \<Rightarrow> Project" where
  "exProject i n = \<lparr>p_id = i, p_name = n, color = ''#3B82F6'', createdAt = 0\<rparr>"

definition exEntry :: "string \<Rightarrow> string \<Rightarrow> string \<Rightarrow> int \<Rightarrow> number option \<Rightarrow> TimeEntry" where
  "exEntry pid pname d n ed =
     \<lparr>e_id = d, projectId = pid, projectName = pname, startTime = 0, endTime = Some (n * 1000),
      duration = n, date = d, isRunning = False, editedDuration = ed\<rparr>"

text \<open>Two projects; three saved entries, the last one of a project since deleted.\<close>

definition exState :: state where
  "exState =
     \<lparr>projects = [exProject ''1'' ''Design'', exProject ''2'' ''Research''],
      timeEntries = [exEntry ''1'' ''Design'' ''2024-01-01'' 3600 None,
                     exEntry ''2'' ''Research'' ''2024-01-01'' 1800 None,
                     exEntry ''3'' ''Archive'' ''2024-01-02'' 60 None],
      currentEntry = None\<rparr>"

text \<open>Project \<open>1\<close> has been deleted; its entry is still in the store.\<close>

definition exDangling :: state where
  "exDangling =
     \<lparr>projects = [exProject ''2'' ''Research''],
      timeEntries = [exEntry ''1'' ''Design'' ''2024-01-01'' 3600 None,
                     exEntry ''2'' ''Research'' ''2024-01-01'' 1800 None],
      currentEntry = None\<rparr>"

text \<open>A timer started on 2024-01-01T00:00:00Z.\<close>

definition exCurrent :: TimeEntry where
  "exCurrent =
     \<lparr>e_id = ''1704067200000'', projectId = ''1'', projectName = ''Design'',
      startTime = 1704067200000, endTime = None, duration = 0, date = ''2024-01-01'',
      isRunning = True, editedDuration = None\<rparr>"

definition exRunning :: state where
  "exRunning = exState\<lparr>currentEntry := Some exCurrent\<rparr>"


text \<open>An entry of 90 seconds whose duration was edited to 0:00:00.\<close>

definition exEditedZero :: TimeEntry where
  "exEditedZero = exEntry ''1'' ''Design'' ''2024-01-01'' 90 (Some (Num 0))"

definition exPages :: "nat list" where
  "exPages = [0 ..< 23]"

text \<open>
  One entry on the Wednesday of each of nine consecutive weeks, from the week of
  2023-11-26 to the week of 2024-01-21, of 1 to 9 hours.
\<close>

definition exWeeks :: "TimeEntry list" where
  "exWeeks =
     [exEntry ''1'' ''Design'' ''2023-11-29'' 3600 None,
      exEntry ''1'' ''Design'' ''2023-12-06'' 7200 None,
      exEntry ''1'' ''Design'' ''2023-12-13'' 10800 None,
      exEntry ''1'' ''Design'' ''2023-12-20'' 14400 None,
      exEntry ''1'' ''Design'' ''2023-12-27'' 18000 None,
      exEntry ''1'' ''Design'' ''2024-01-03'' 21600 None,
      exEntry ''1'' ''Design'' ''2024-01-10'' 25200 None,
      exEntry ''1'' ''Design'' ''2024-01-17'' 28800 None,
      exEntry ''1'' ''Design'' ''2024-01-24'' 32400 None]"

section \<open>Effective duration\<close>

lemma foldl_effective:
  "foldl (\<lambda>total entry. total + effectiveDuration entry) a xs = a + sum_list (map effectiveDuration xs)"
  by (induction xs arbitrary: a) simp_all

lemma totalHours_sum:
  "totalHours xs = of_int (sum_list (map effectiveDuration xs)) / 3600"
  by (simp add: totalHours_def foldl_effective)

lemma chartTotalHours_sum:
  "chartTotalHours xs = of_int (sum_list (map effectiveDuration xs)) / 3600"
  by (simp add: chartTotalHours_def foldl_effective)

text \<open>
  Away from an edited duration of \<open>0\<close> or \<open>NaN\<close> the expression of the source is the
  specification's effective duration.
\<close>

lemma effectiveDuration_agrees:
  assumes "editedDuration entry \<noteq> Some (Num 0)" and "editedDuration entry \<noteq> Some NaN"
  shows "Num (effectiveDuration entry) = specEffectiveDuration entry"
  using assms
  by (auto simp add: effectiveDuration_def specEffectiveDuration_def split: option.splits number.splits)

text \<open>
  Claim C1: the effective duration that every aggregation uses is \<open>editedDuration\<close>
  when that field is present and \<open>duration\<close> otherwise, also when \<open>editedDuration\<close> is
  present and equal to 0.

  The source reads \<open>entry.editedDuration || entry.duration\<close>, and 0 is falsy: for an
  entry of 90 seconds edited to 0 seconds the specification's effective duration is 0,
  and the source's is 90; both totals report 90 seconds.
\<close>

theorem effectiveDuration_zero_edit:
  "editedDuration exEditedZero = Some (Num 0) \<and>
   specEffectiveDuration exEditedZero = Num 0 \<and>
   effectiveDuration exEditedZero = 90 \<and>
   totalHours [exEditedZero] = 90 / 3600 \<and>
   chartTotalHours [exEditedZero] = 90 / 3600"
  by (simp add: exEditedZero_def exEntry_def specEffectiveDuration_def effectiveDuration_def
      totalHours_def chartTotalHours_def)

section \<open>Session controller\<close>

lemma floor_ms_to_seconds: "\<lfloor>rat_of_int a / 1000\<rfloor> = a div 1000"
proof -
  have "\<lfloor>rat_of_int a / rat_of_int 1000\<rfloor> = a div 1000"
    by (rule floor_divide_of_int_eq)
  then show ?thesis by simp
qed

lemma floor_ms_difference: "\<lfloor>(rat_of_int a - rat_of_int b) / 1000\<rfloor> = (a - b) div 1000"
  using floor_ms_to_seconds [of "a - b"] by simp

lemma find_project_Some:
  assumes "pid \<in> p_id ` set (projects s)"
  obtains project where "find (\<lambda>p. p_id p = pid) (projects s) = Some project"
proof -
  from assms have "\<exists>p \<in> set (projects s). p_id p = pid" by auto
  then have "find (\<lambda>p. p_id p = pid) (projects s) \<noteq> None"
    by (auto simp add: find_None_iff)
  then show ?thesis using that by blast
qed

text \<open>Starting on an existing project stages a running entry and leaves the store alone.\<close>

lemma startTimer_running:
  assumes "pid \<in> p_id ` set (projects s)"
  shows "\<exists>ce. currentEntry (startTimer now1 now2 now3 pid s) = Some ce \<and> isRunning ce \<and>
              duration ce = 0 \<and> startTime ce = now2 \<and> projectId ce = pid \<and>
              timeEntries (startTimer now1 now2 now3 pid s) = timeEntries s"
proof -
  from assms obtain project where "find (\<lambda>p. p_id p = pid) (projects s) = Some project"
    by (rule find_project_Some)
  then show ?thesis by (simp add: startTimer_def)
qed

text \<open>Stopping and saving appends the stopped entry and clears the session.\<close>

lemma stop_save_appends:
  assumes "currentEntry s = Some ce"
  shows "timeEntries (handleSave (stopTimer now s)) =
           timeEntries s @ [ce\<lparr>endTime := Some now,
                                duration := (now - startTime ce) div 1000,
                                isRunning := False\<rparr>] \<and>
         currentEntry (handleSave (stopTimer now s)) = None"
  using assms by (simp add: handleSave_def stopTimer_def saveEntry_def floor_ms_difference)

lemma start_stop_save_length:
  assumes "pid \<in> p_id ` set (projects s)"
  shows "length (timeEntries (handleSave (stopTimer now4 (startTimer now1 now2 now3 pid s))))
           = length (timeEntries s) + 1 \<and>
         currentEntry (handleSave (stopTimer now4 (startTimer now1 now2 now3 pid s))) = None"
proof -
  from startTimer_running [OF assms, of now1 now2 now3]
  obtain ce where ce: "currentEntry (startTimer now1 now2 now3 pid s) = Some ce"
    and es: "timeEntries (startTimer now1 now2 now3 pid s) = timeEntries s"
    by blast
  from stop_save_appends [OF ce, of now4] es
  show ?thesis by simp
qed

text \<open>
  Claim C2: from every state, \<open>start(projectId)\<close> on an existing project, then
  \<open>stop()\<close>, then \<open>save()\<close> makes the durable entry store longer by exactly one entry
  and leaves the session \<open>Idle\<close>, the current entry absent. \<open>save()\<close> is \<open>handleSave\<close>,
  which hands the staged entry to \<open>saveEntry\<close>.
\<close>

theorem start_stop_save:
  assumes "pid \<in> p_id ` set (projects s)"
  shows "length (timeEntries (handleSave (stopTimer now4 (startTimer now1 now2 now3 pid s))))
           = length (timeEntries s) + 1 \<and>
         currentEntry (handleSave (stopTimer now4 (startTimer now1 now2 now3 pid s))) = None \<and>
         sessionState (handleSave (stopTimer now4 (startTimer now1 now2 now3 pid s))) = Idle"
  using start_stop_save_length [OF assms, of now4 now1 now2 now3]
  by (simp add: sessionState_def)

theorem start_stop_save_witness:
  "''1'' \<in> p_id ` set (projects exRunning) \<and>
   length (timeEntries exRunning) = 3 \<and>
   length (timeEntries (handleSave (stopTimer 1704067290000
      (startTimer 1704067200000 1704067200000 1704067200000 ''1'' exRunning)))) = 4 \<and>
   sessionState (handleSave (stopTimer 1704067290000
      (startTimer 1704067200000 1704067200000 1704067200000 ''1'' exRunning))) = Idle"
proof -
  have h: "''1'' \<in> p_id ` set (projects exRunning)"
    and l: "length (timeEntries exRunning) = 3"
    by (simp_all add: exRunning_def exState_def exProject_def)
  from start_stop_save [OF h, of 1704067290000 1704067200000 1704067200000 1704067200000] h l
  show ?thesis by simp
qed

text \<open>
  The same through the guarded handlers of the \<open>Timer\<close> component, where a selected
  project is a non-empty id: when a timer is already running, \<open>handleStart\<close> does
  nothing and it is the running entry that is stopped and saved.
\<close>

lemma handlers_start_stop_save:
  assumes "selectedProject \<noteq> []" and "selectedProject \<in> p_id ` set (projects s)"
  shows "length (timeEntries (handleSave (handleStop now4 (handleStart now1 now2 now3 selectedProject s))))
           = length (timeEntries s) + 1 \<and>
         sessionState (handleSave (handleStop now4 (handleStart now1 now2 now3 selectedProject s))) = Idle"
proof (cases "running s")
  case True
  then obtain ce where ce: "currentEntry s = Some ce"
    by (auto simp add: running_def split: option.splits)
  from True have "handleStop now4 (handleStart now1 now2 now3 selectedProject s) = stopTimer now4 s"
    by (simp add: handleStart_def handleStop_def)
  with stop_save_appends [OF ce, of now4] show ?thesis
    by (simp add: sessionState_def)
next
  case False
  from startTimer_running [OF assms(2), of now1 now2 now3]
  have "running (startTimer now1 now2 now3 selectedProject s)"
    by (auto simp add: running_def)
  with False assms(1)
  have "handleStop now4 (handleStart now1 now2 now3 selectedProject s)
          = stopTimer now4 (startTimer now1 now2 now3 selectedProject s)"
    by (simp add: handleStart_def handleStop_def)
  with start_stop_save_length [OF assms(2), of now4 now1 now2 now3] show ?thesis
    by (simp add: sessionState_def)
qed

text \<open>
  Claim C3: for a current entry in the \<open>Running\<close> state, \<open>stop()\<close> at the wall-clock
  time \<open>now\<close> sets \<open>endTime\<close> to \<open>now\<close>, \<open>duration\<close> to the floor of
  \<open>(endTime - startTime)\<close> in seconds (the times being in milliseconds), \<open>isRunning\<close> to
  false, and the session becomes \<open>Stopped\<close>; nothing else changes.
\<close>

theorem stopTimer_running:
  assumes "currentEntry s = Some ce" and "isRunning ce"
  shows "currentEntry (stopTimer now s) =
           Some (ce\<lparr>endTime := Some now, duration := (now - startTime ce) div 1000, isRunning := False\<rparr>) \<and>
         sessionState s = Running \<and>
         sessionState (stopTimer now s) = Stopped \<and>
         handleStop now s = stopTimer now s \<and>
         timeEntries (stopTimer now s) = timeEntries s \<and>
         projects (stopTimer now s) = projects s"
  using assms
  by (simp add: sessionState_def handleStop_def running_def stopTimer_def floor_ms_difference)

theorem stopTimer_running_witness:
  "currentEntry exRunning = Some exCurrent \<and> isRunning exCurrent \<and>
   currentEntry (stopTimer 1704067290999 exRunning) =
     Some (exCurrent\<lparr>endTime := Some 1704067290999, duration := 90, isRunning := False\<rparr>) \<and>
   sessionState (stopTimer 1704067290999 exRunning) = Stopped"
proof -
  have h1: "currentEntry exRunning = Some exCurrent" and h2: "isRunning exCurrent"
    by (simp_all add: exRunning_def exCurrent_def)
  have d: "(1704067290999 - startTime exCurrent) div 1000 = 90"
    by (simp add: exCurrent_def)
  from stopTimer_running [OF h1 h2, of 1704067290999] h1 h2 d
  show ?thesis by simp
qed

section \<open>Project registry\<close>

lemma updateProject_entries_length:
  "length (timeEntries (updateProject i name col s)) = length (timeEntries s)"
  by (simp add: updateProject_def)

lemma updateProject_entries_nth:
  assumes "k < length (timeEntries s)"
  shows "timeEntries (updateProject i name col s) ! k =
           (if projectId (timeEntries s ! k) = i
            then (timeEntries s ! k)\<lparr>projectName := name\<rparr> else timeEntries s ! k)"
  using assms by (simp add: updateProject_def)

lemma updateProject_absent_projects:
  assumes "i \<notin> p_id ` set (projects s)"
  shows "projects (updateProject i name col s) = projects s"
proof -
  have "map (\<lambda>p. if p_id p = i then p\<lparr>p_name := name, color := col\<rparr> else p) (projects s)
          = map (\<lambda>p. p) (projects s)"
    using assms by (intro map_cong) auto
  then show ?thesis by (simp add: updateProject_def)
qed

text \<open>
  Claim C6: for an existing project id, \<open>update(id, name, color)\<close> sets
  \<open>projectName = name\<close> on every durable entry whose \<open>projectId\<close> is \<open>id\<close> and leaves
  every entry with another \<open>projectId\<close> as it was, field by field; the store keeps its
  length and its order.
\<close>

theorem updateProject_propagates:
  assumes "i \<in> p_id ` set (projects s)"
  shows "length (timeEntries (updateProject i name col s)) = length (timeEntries s) \<and>
         (\<forall>k < length (timeEntries s).
            (projectId (timeEntries s ! k) = i \<longrightarrow>
               timeEntries (updateProject i name col s) ! k = (timeEntries s ! k)\<lparr>projectName := name\<rparr>) \<and>
            (projectId (timeEntries s ! k) \<noteq> i \<longrightarrow>
               timeEntries (updateProject i name col s) ! k = timeEntries s ! k))"
  by (simp add: updateProject_entries_length updateProject_entries_nth)

theorem updateProject_propagates_witness:
  "''1'' \<in> p_id ` set (projects exState) \<and>
   timeEntries (updateProject ''1'' ''Branding'' ''#10B981'' exState) =
     [exEntry ''1'' ''Branding'' ''2024-01-01'' 3600 None,
      exEntry ''2'' ''Research'' ''2024-01-01'' 1800 None,
      exEntry ''3'' ''Archive'' ''2024-01-02'' 60 None]"
proof -
  have h: "''1'' \<in> p_id ` set (projects exState)"
    by (simp add: exState_def exProject_def)
  have len: "length (timeEntries exState) = 3"
    by (simp add: exState_def)
  from updateProject_propagates [OF h, of "''Branding''" "''#10B981''"]
  have "length (timeEntries (updateProject ''1'' ''Branding'' ''#10B981'' exState)) = 3"
    and "\<forall>k < 3. timeEntries (updateProject ''1'' ''Branding'' ''#10B981'' exState) ! k =
           (if projectId (timeEntries exState ! k) = ''1''
            then (timeEntries exState ! k)\<lparr>projectName := ''Branding''\<rparr> else timeEntries exState ! k)"
    by (simp_all add: len)
  then have "timeEntries (updateProject ''1'' ''Branding'' ''#10B981'' exState) =
      map (\<lambda>k. if projectId (timeEntries exState ! k) = ''1''
            then (timeEntries exState ! k)\<lparr>projectName := ''Branding''\<rparr> else timeEntries exState ! k) [0 ..< 3]"
    by (intro nth_equalityI) auto
  also have "\<dots> = [exEntry ''1'' ''Branding'' ''2024-01-01'' 3600 None,
      exEntry ''2'' ''Research'' ''2024-01-01'' 1800 None,
      exEntry ''3'' ''Archive'' ''2024-01-02'' 60 None]"
    by (simp add: exState_def exEntry_def upt_rec [of 0] upt_rec [of 1] upt_rec [of 2] numeral_3_eq_3)
  finally show ?thesis using h by simp
qed

text \<open>Renaming an entry changes it unless it has the name already.\<close>

lemma rename_entry_same:
  "entry\<lparr>projectName := name\<rparr> = entry \<longleftrightarrow> projectName entry = name"
proof
  assume "entry\<lparr>projectName := name\<rparr> = entry"
  then have "projectName (entry\<lparr>projectName := name\<rparr>) = projectName entry"
    by simp
  then show "projectName entry = name" by simp
next
  assume "projectName entry = name"
  then show "entry\<lparr>projectName := name\<rparr> = entry" by auto
qed

lemma updateProject_entries_same:
  "timeEntries (updateProject i name col s) = timeEntries s \<longleftrightarrow>
     (\<forall>entry \<in> set (timeEntries s). projectId entry = i \<longrightarrow> projectName entry = name)"
proof -
  have "timeEntries (updateProject i name col s) = timeEntries s \<longleftrightarrow>
      map (\<lambda>entry. if projectId entry = i then entry\<lparr>projectName := name\<rparr> else entry) (timeEntries s)
        = map (\<lambda>entry. entry) (timeEntries s)"
    by (simp add: updateProject_def)
  also have "\<dots> \<longleftrightarrow>
      (\<forall>entry \<in> set (timeEntries s).
         (if projectId entry = i then entry\<lparr>projectName := name\<rparr> else entry) = entry)"
    by (rule map_eq_conv)
  also have "\<dots> \<longleftrightarrow>
      (\<forall>entry \<in> set (timeEntries s). projectId entry = i \<longrightarrow> projectName entry = name)"
    by (simp add: rename_entry_same)
  finally show ?thesis .
qed

text \<open>
  The claim that \<open>update\<close> on an id that is not in the project list changes nothing
  fails on an entry whose project was deleted: the entry of the deleted project \<open>1\<close>
  is renamed.
\<close>

theorem updateProject_absent_counterexample:
  "''1'' \<notin> p_id ` set (projects exDangling) \<and>
   timeEntries (updateProject ''1'' ''Branding'' ''#10B981'' exDangling) \<noteq> timeEntries exDangling"
  by (simp add: exDangling_def exProject_def exEntry_def updateProject_def)

text \<open>
  Claim C7, as amended: for an id that does not occur in the project list,
  \<open>update(id, name, color)\<close> leaves the project list and the current entry unchanged;
  there is no check that the id exists, so every durable entry whose \<open>projectId\<close> is
  \<open>id\<close> (an entry left dangling by a deletion) still gets \<open>projectName = name\<close>, and
  every other entry is as it was. The entry store is unchanged when no entry refers
  to \<open>id\<close>; in general it is unchanged exactly when every entry that refers to \<open>id\<close>
  has the project name \<open>name\<close> already.
\<close>

theorem updateProject_absent:
  assumes "i \<notin> p_id ` set (projects s)"
  shows "projects (updateProject i name col s) = projects s \<and>
         currentEntry (updateProject i name col s) = currentEntry s \<and>
         timeEntries (updateProject i name col s) =
           map (\<lambda>entry. if projectId entry = i then entry\<lparr>projectName := name\<rparr> else entry) (timeEntries s) \<and>
         ((\<forall>entry \<in> set (timeEntries s). projectId entry \<noteq> i) \<longrightarrow>
            timeEntries (updateProject i name col s) = timeEntries s) \<and>
         (timeEntries (updateProject i name col s) = timeEntries s \<longleftrightarrow>
            (\<forall>entry \<in> set (timeEntries s). projectId entry = i \<longrightarrow> projectName entry = name))"
proof -
  have same: "timeEntries (updateProject i name col s) = timeEntries s \<longleftrightarrow>
      (\<forall>entry \<in> set (timeEntries s). projectId entry = i \<longrightarrow> projectName entry = name)"
    by (rule updateProject_entries_same)
  then have "timeEntries (updateProject i name col s) = timeEntries s"
    if "\<forall>entry \<in> set (timeEntries s). projectId entry \<noteq> i"
    using that by blast
  moreover have "currentEntry (updateProject i name col s) = currentEntry s"
    and "timeEntries (updateProject i name col s) =
           map (\<lambda>entry. if projectId entry = i then entry\<lparr>projectName := name\<rparr> else entry) (timeEntries s)"
    by (simp_all add: updateProject_def)
  ultimately show ?thesis
    using updateProject_absent_projects [OF assms] same by blast
qed

theorem updateProject_absent_witness:
  "''1'' \<notin> p_id ` set (projects exDangling) \<and>
   projects (updateProject ''1'' ''Branding'' ''#10B981'' exDangling) = projects exDangling \<and>
   timeEntries (updateProject ''1'' ''Branding'' ''#10B981'' exDangling) =
     [exEntry ''1'' ''Branding'' ''2024-01-01'' 3600 None,
      exEntry ''2'' ''Research'' ''2024-01-01'' 1800 None] \<and>
   ''7'' \<notin> p_id ` set (projects exDangling) \<and>
   list_all (\<lambda>entry. projectId entry \<noteq> ''7'') (timeEntries exDangling) \<and>
   timeEntries (updateProject ''7'' ''Branding'' ''#10B981'' exDangling) = timeEntries exDangling \<and>
   list_all (\<lambda>entry. projectId entry \<noteq> ''1'' \<or> projectName entry = ''Design'') (timeEntries exDangling) \<and>
   timeEntries (updateProject ''1'' ''Design'' ''#10B981'' exDangling) = timeEntries exDangling"
proof -
  have h1: "''1'' \<notin> p_id ` set (projects exDangling)"
    and h7: "''7'' \<notin> p_id ` set (projects exDangling)"
    and e7: "\<forall>entry \<in> set (timeEntries exDangling). projectId entry \<noteq> ''7''"
    by (simp_all add: exDangling_def exProject_def exEntry_def)
  from updateProject_absent [OF h1, of "''Branding''" "''#10B981''"]
  have a: "projects (updateProject ''1'' ''Branding'' ''#10B981'' exDangling) = projects exDangling"
    and b: "timeEntries (updateProject ''1'' ''Branding'' ''#10B981'' exDangling) =
           map (\<lambda>entry. if projectId entry = ''1'' then entry\<lparr>projectName := ''Branding''\<rparr> else entry)
             (timeEntries exDangling)"
    by blast+
  have c: "map (\<lambda>entry. if projectId entry = ''1'' then entry\<lparr>projectName := ''Branding''\<rparr> else entry)
             (timeEntries exDangling) =
     [exEntry ''1'' ''Branding'' ''2024-01-01'' 3600 None,
      exEntry ''2'' ''Research'' ''2024-01-01'' 1800 None]"
    by (simp add: exDangling_def exEntry_def)
  from updateProject_absent [OF h7, of "''Branding''" "''#10B981''"] e7
  have d: "timeEntries (updateProject ''7'' ''Branding'' ''#10B981'' exDangling) = timeEntries exDangling"
    by blast
  have e7': "list_all (\<lambda>entry. projectId entry \<noteq> ''7'') (timeEntries exDangling)"
    using e7 by (simp add: list_all_iff)
  have e1: "\<forall>entry \<in> set (timeEntries exDangling). projectId entry = ''1'' \<longrightarrow> projectName entry = ''Design''"
    by (simp add: exDangling_def exEntry_def)
  then have e1': "list_all (\<lambda>entry. projectId entry \<noteq> ''1'' \<or> projectName entry = ''Design'')
      (timeEntries exDangling)"
    by (auto simp add: list_all_iff)
  from updateProject_absent [OF h1, of "''Design''" "''#10B981''"] e1
  have f: "timeEntries (updateProject ''1'' ''Design'' ''#10B981'' exDangling) = timeEntries exDangling"
    by blast
  show ?thesis using h1 h7 e7' e1' a b c d f by simp
qed

lemma filter_distinct_key_length:
  assumes "distinct (map f xs)" and "x \<in> f ` set xs"
  shows "length (filter (\<lambda>p. f p \<noteq> x) xs) + 1 = length xs"
  using assms
proof (induction xs)
  case Nil
  then show ?case by simp
next
  case (Cons a xs)
  show ?case
  proof (cases "f a = x")
    case True
    with Cons.prems have "x \<notin> f ` set xs" by auto
    then have "filter (\<lambda>p. f p \<noteq> x) xs = xs"
      by (intro filter_True) auto
    with True show ?thesis by simp
  next
    case False
    with Cons show ?thesis by auto
  qed
qed

text \<open>
  Claim C8: \<open>delete(id)\<close> removes exactly the project record with that id from the
  project list (one record, when ids are distinct) and leaves the durable entry store
  unchanged: the same entries with the same fields, those of the deleted project
  included.
\<close>

theorem deleteProject_frame:
  "timeEntries (deleteProject i s) = timeEntries s \<and>
   currentEntry (deleteProject i s) = currentEntry s \<and>
   set (projects (deleteProject i s)) = {p \<in> set (projects s). p_id p \<noteq> i} \<and>
   i \<notin> p_id ` set (projects (deleteProject i s)) \<and>
   (distinct (map p_id (projects s)) \<and> i \<in> p_id ` set (projects s) \<longrightarrow>
      length (projects (deleteProject i s)) + 1 = length (projects s))"
  using filter_distinct_key_length [of p_id "projects s" i]
  by (auto simp add: deleteProject_def)

theorem deleteProject_frame_witness:
  "timeEntries (deleteProject ''1'' exState) = timeEntries exState \<and>
   distinct (map p_id (projects exState)) \<and> ''1'' \<in> p_id ` set (projects exState) \<and>
   length (projects (deleteProject ''1'' exState)) + 1 = length (projects exState) \<and>
   length (projects exState) = 2"
proof -
  have h: "distinct (map p_id (projects exState)) \<and> ''1'' \<in> p_id ` set (projects exState)"
    and l: "length (projects exState) = 2"
    by (simp_all add: exState_def exProject_def)
  with deleteProject_frame [of "''1''" exState] show ?thesis by blast
qed

section \<open>Filtering\<close>

lemma set_insertBy: "set (insertBy cmp x ys) = insert x (set ys)"
  by (induction ys) auto

lemma set_sortBy: "set (sortBy cmp xs) = set xs"
  by (induction xs) (simp_all add: sortBy_def set_insertBy)

lemma length_insertBy: "length (insertBy cmp x ys) = Suc (length ys)"
  by (induction ys) auto

lemma length_sortBy: "length (sortBy cmp xs) = length xs"
  by (induction xs) (simp_all add: sortBy_def length_insertBy)

text \<open>An empty bound is an unset one; \<open>all\<close> is the unset project filter.\<close>

lemma set_filteredEntries:
  "set (filteredEntries entries p from to) =
     {entry \<in> set entries.
        (p \<noteq> ''all'' \<longrightarrow> projectId entry = p) \<and>
        (from \<noteq> [] \<longrightarrow> from \<le> date entry) \<and>
        (to \<noteq> [] \<longrightarrow> date entry \<le> to)}"
  by (auto simp add: filteredEntries_def Let_def set_sortBy)

text \<open>
  Claim C4: filtering with a project filter \<open>p\<close> other than \<open>all\<close> returns exactly the
  entries with \<open>projectId = p\<close>; filtering by the date range \<open>[from, to]\<close> returns
  exactly the entries with \<open>from <= date <= to\<close>, both ends included, in the order of
  strings; both filters together return the intersection of the two.
\<close>

theorem filteredEntries_filters:
  "(p \<noteq> ''all'' \<longrightarrow>
      set (filteredEntries entries p [] []) = {entry \<in> set entries. projectId entry = p}) \<and>
   (from \<noteq> [] \<and> to \<noteq> [] \<longrightarrow>
      set (filteredEntries entries ''all'' from to)
        = {entry \<in> set entries. from \<le> date entry \<and> date entry \<le> to}) \<and>
   set (filteredEntries entries p from to)
     = set (filteredEntries entries p [] []) \<inter> set (filteredEntries entries ''all'' from to)"
  by (auto simp add: set_filteredEntries)

theorem filteredEntries_filters_witness:
  "''1'' \<noteq> ''all'' \<and> ''2024-01-01'' \<noteq> [] \<and> ''2024-01-02'' \<noteq> [] \<and>
   set (filteredEntries (timeEntries exState) ''1'' [] [])
     = {entry \<in> set (timeEntries exState). projectId entry = ''1''} \<and>
   set (filteredEntries (timeEntries exState) ''all'' ''2024-01-01'' ''2024-01-02'')
     = {entry \<in> set (timeEntries exState). ''2024-01-01'' \<le> date entry \<and> date entry \<le> ''2024-01-02''} \<and>
   set (filteredEntries (timeEntries exState) ''1'' ''2024-01-01'' ''2024-01-02'')
     = set (filteredEntries (timeEntries exState) ''1'' [] [])
       \<inter> set (filteredEntries (timeEntries exState) ''all'' ''2024-01-01'' ''2024-01-02'') \<and>
   filteredEntries (timeEntries exState) ''1'' ''2024-01-01'' ''2024-01-02''
     = [exEntry ''1'' ''Design'' ''2024-01-01'' 3600 None]"
proof -
  have ev: "filteredEntries (timeEntries exState) ''1'' ''2024-01-01'' ''2024-01-02''
     = [exEntry ''1'' ''Design'' ''2024-01-01'' 3600 None]"
    by code_simp
  from filteredEntries_filters [of "''1''" "timeEntries exState" "''2024-01-01''" "''2024-01-02''"] ev
  show ?thesis by simp
qed

section \<open>Pagination\<close>

text \<open>A slice between two non-negative indices is a \<open>take\<close> of a \<open>drop\<close>.\<close>

lemma slice_nonneg:
  assumes "0 \<le> a" and "a \<le> b"
  shows "slice xs a b = take (nat b - nat a) (drop (nat a) xs)"
proof (cases "a \<le> int (length xs)")
  case False
  with assms show ?thesis
    by (simp add: slice_def relativeIndex_def Let_def min_def)
next
  case True
  show ?thesis
  proof (cases "b \<le> int (length xs)")
    case True
    with \<open>a \<le> int (length xs)\<close> assms show ?thesis
      by (simp add: slice_def relativeIndex_def Let_def min_def)
  next
    case False
    with True assms have "length (drop (nat a) xs) \<le> nat b - nat a"
      by simp
    moreover from False True assms have "length (drop (nat a) xs) \<le> length xs - nat a"
      by simp
    ultimately show ?thesis
      using False True assms by (simp add: slice_def relativeIndex_def Let_def min_def)
  qed
qed

lemma paginatedEntries_page:
  assumes "1 \<le> k"
  shows "paginatedEntries xs k = take 10 (drop (nat ((k - 1) * 10)) xs)"
proof -
  have "nat ((k - 1) * 10 + 10) - nat ((k - 1) * 10) = 10"
    using assms by simp
  with slice_nonneg [of "(k - 1) * 10" "(k - 1) * 10 + 10" xs] assms
  show ?thesis by (simp add: paginatedEntries_def itemsPerPage_def Let_def)
qed

text \<open>The first \<open>n\<close> chunks of \<open>m\<close> elements make up the first \<open>n * m\<close> elements.\<close>

lemma concat_pages:
  "concat (map (\<lambda>i. take m (drop (i * m) xs)) [0 ..< n]) = take (n * m) xs"
proof (induction n)
  case 0
  show ?case by simp
next
  case (Suc n)
  have "take (n * m) xs @ take m (drop (n * m) xs) = take (n * m + m) xs"
    by (simp add: take_add)
  with Suc show ?case by (simp add: add.commute)
qed

lemma upto_from_1: "[1 .. int n] = map (\<lambda>i. int i + 1) [0 ..< n]"
proof (induction n)
  case 0
  show ?case by simp
next
  case (Suc n)
  have "[1 .. int (Suc n)] = [1 .. int n] @ [int n + 1]"
    using upto_rec2 [of 1 "int (Suc n)"] by (simp add: add.commute)
  with Suc show ?case by simp
qed

lemma totalPages_div: "totalPages xs = (int (length xs) + 9) div 10"
proof -
  have "totalPages xs = \<lceil>rat_of_int (int (length xs)) / rat_of_int 10\<rceil>"
    by (simp add: totalPages_def itemsPerPage_def)
  also have "\<dots> = - (- int (length xs) div 10)"
    by (rule ceiling_divide_eq_div)
  also have "\<dots> = (int (length xs) + 9) div 10"
    by presburger
  finally show ?thesis .
qed

text \<open>
  Claim C5: for a list of any length \<open>n\<close>, page \<open>k\<close> is the slice
  \<open>entries[(k-1)*10 : k*10]\<close> (ten entries from index \<open>(k-1)*10\<close> on, for \<open>k >= 1\<close>),
  the number of pages is \<open>ceil(n/10)\<close>, and the pages 1 to \<open>ceil(n/10)\<close> put one after
  the other are the list itself, nothing twice and nothing missing.
\<close>

theorem pagination_reconstructs:
  "(\<forall>k. paginatedEntries xs k = slice xs ((k - 1) * 10) (k * 10)) \<and>
   (\<forall>k \<ge> 1. paginatedEntries xs k = take 10 (drop (nat ((k - 1) * 10)) xs)) \<and>
   totalPages xs = (int (length xs) + 9) div 10 \<and>
   concat (map (paginatedEntries xs) [1 .. totalPages xs]) = xs"
proof -
  define n where "n = nat (totalPages xs)"
  have tp: "totalPages xs = int n" and cover: "length xs \<le> n * 10"
    unfolding n_def totalPages_div by linarith+
  have "map (paginatedEntries xs) [1 .. int n]
          = map (\<lambda>i. take 10 (drop (i * 10) xs)) [0 ..< n]"
    by (simp add: upto_from_1 paginatedEntries_page nat_mult_distrib)
  then have "concat (map (paginatedEntries xs) [1 .. totalPages xs]) = take (n * 10) xs"
    by (simp add: tp concat_pages)
  with cover have "concat (map (paginatedEntries xs) [1 .. totalPages xs]) = xs"
    by simp
  moreover have "\<forall>k. paginatedEntries xs k = slice xs ((k - 1) * 10) (k * 10)"
    by (simp add: paginatedEntries_def itemsPerPage_def Let_def algebra_simps)
  moreover have "\<forall>k \<ge> 1. paginatedEntries xs k = take 10 (drop (nat ((k - 1) * 10)) xs)"
    using paginatedEntries_page by blast
  ultimately show ?thesis
    using totalPages_div [of xs] by blast
qed

theorem pagination_reconstructs_witness:
  "(1::int) \<le> 3 \<and> paginatedEntries exPages 3 = [20, 21, 22] \<and>
   totalPages exPages = 3 \<and>
   concat (map (paginatedEntries exPages) [1 .. totalPages exPages]) = exPages"
proof -
  have t: "take 10 (drop (nat ((3 - 1) * 10)) exPages) = [20, 21, 22]"
    by code_simp
  have l: "(int (length exPages) + 9) div 10 = 3"
    by (simp add: exPages_def)
  note p = pagination_reconstructs [of exPages]
  from p have "\<forall>k \<ge> 1. paginatedEntries exPages k = take 10 (drop (nat ((k - 1) * 10)) exPages)"
    by blast
  then have "paginatedEntries exPages 3 = take 10 (drop (nat ((3 - 1) * 10)) exPages)"
    by (elim allE [of _ 3] impE) simp_all
  from this t have a: "paginatedEntries exPages 3 = [20, 21, 22]"
    by (rule trans)
  from p have "totalPages exPages = (int (length exPages) + 9) div 10"
    by blast
  from this l have b: "totalPages exPages = 3"
    by (rule trans)
  from p have c: "concat (map (paginatedEntries exPages) [1 .. totalPages exPages]) = exPages"
    by blast
  from a b c show ?thesis by simp
qed

section \<open>Duration edit\<close>








section \<open>Per-week series\<close>

text \<open>
  Claim C10: the per-week series puts every entry into the bucket of the
  Sunday-starting week of its date, sums the effective durations of a bucket, and
  reports the 8 chronologically most recent buckets, whatever calendar years they
  span.

  The source sorts the buckets by \<open>new Date(a.week)\<close> after it has replaced the week's
  key by a label without the year, so the buckets are in the order of month and day.
  For nine weeks from 2023-11-26 to 2024-01-21 (time zone UTC) the most recent 8
  buckets are those from Dec 3 to Jan 21; the source reports the January buckets
  first and drops the week of 2024-01-07, keeping that of 2023-11-26.
\<close>

theorem weeklyData_across_years:
  "specWeeklyData 0 exWeeks = Some
     [\<lparr>week = ''Dec 3'', hours = 2\<rparr>, \<lparr>week = ''Dec 10'', hours = 3\<rparr>,
      \<lparr>week = ''Dec 17'', hours = 4\<rparr>, \<lparr>week = ''Dec 24'', hours = 5\<rparr>,
      \<lparr>week = ''Dec 31'', hours = 6\<rparr>, \<lparr>week = ''Jan 7'', hours = 7\<rparr>,
      \<lparr>week = ''Jan 14'', hours = 8\<rparr>, \<lparr>week = ''Jan 21'', hours = 9\<rparr>] \<and>
   weeklyData 0 exWeeks = Some
     [\<lparr>week = ''Jan 14'', hours = 8\<rparr>, \<lparr>week = ''Jan 21'', hours = 9\<rparr>,
      \<lparr>week = ''Nov 26'', hours = 1\<rparr>, \<lparr>week = ''Dec 3'', hours = 2\<rparr>,
      \<lparr>week = ''Dec 10'', hours = 3\<rparr>, \<lparr>week = ''Dec 17'', hours = 4\<rparr>,
      \<lparr>week = ''Dec 24'', hours = 5\<rparr>, \<lparr>week = ''Dec 31'', hours = 6\<rparr>]"
  by code_simp

end
